theory Spec2Isabelle
  imports Complex_Main "HOL-Library.AList"
begin

section \<open>Python values, errors and strings\<close>

text \<open>
  The vectors handed to the model wrapper hold Python numbers. An \<open>int\<close> is unbounded.
  A \<open>float\<close> is carried by the text that Python's \<open>str\<close> prints for it (that text
  determines the float); how a binary float is turned into that text is outside this
  development.
\<close>

datatype pyval = PyInt int | PyFloat string

text \<open>The exceptions that the modelled code can raise; \<open>ValueError\<close> keeps its message.\<close>

datatype py_error =
    ValueError string
  | KeyError string
  | TypeError
  | AttributeError
  | OSError

definition digit_char :: "nat \<Rightarrow> char" where
  "digit_char d = ''0123456789'' ! d"

fun str_nat :: "nat \<Rightarrow> string" where
  "str_nat n = (if n < 10 then [digit_char n] else str_nat (n div 10) @ [digit_char (n mod 10)])"

declare str_nat.simps [simp del]

definition str_int :: "int \<Rightarrow> string" where
  "str_int i = (if i < 0 then CHR ''-'' # str_nat (nat (- i)) else str_nat (nat i))"

text \<open>\<open>str(el)\<close> for an element of a vector.\<close>

fun str_val :: "pyval \<Rightarrow> string" where
  "str_val (PyInt i) = str_int i"
| "str_val (PyFloat r) = r"

text \<open>\<open>sep.join(xs)\<close>.\<close>

fun join :: "string \<Rightarrow> string list \<Rightarrow> string" where
  "join sep [] = []"
| "join sep [x] = x"
| "join sep (x # y # ys) = x @ sep @ join sep (y # ys)"

text \<open>\<open>s.split(d)\<close> for a one-character separator: the empty string gives one empty token.\<close>

fun split_on :: "char \<Rightarrow> string \<Rightarrow> string list" where
  "split_on d [] = [[]]"
| "split_on d (c # cs) =
     (if c = d then [] # split_on d cs
      else (case split_on d cs of [] \<Rightarrow> [[c]] | t # ts \<Rightarrow> (c # t) # ts))"

text \<open>\<open>dict(pairs)\<close>: a later pair with a key already present replaces the value in place.\<close>

definition dict_of :: "('k \<times> 'v) list \<Rightarrow> ('k \<times> 'v) list" where
  "dict_of ps = foldl (\<lambda>d (k, v). AList.update k v d) [] ps"

section \<open>Paths and the file system\<close>

text \<open>
  A path is the list of its components below the root; \<open>p / name\<close> appends one component
  and \<open>str(p)\<close> prints the components after slashes.
\<close>

type_synonym path = "string list"

definition joinpath :: "path \<Rightarrow> string \<Rightarrow> path" where
  "joinpath p n = p @ [n]"

definition str_path :: "path \<Rightarrow> string" where
  "str_path p = (if p = [] then ''/'' else concat (map (\<lambda>c. CHR ''/'' # c) p))"

record filesystem =
  dirs :: "path set"
  files :: "path \<rightharpoonup> string"

text \<open>\<open>p.open(mode="w")\<close> followed by one \<open>write\<close>: the parent directory has to exist.\<close>

definition write_text :: "filesystem \<Rightarrow> path \<Rightarrow> string \<Rightarrow> py_error + filesystem" where
  "write_text fs p txt =
     (if p \<noteq> [] \<and> butlast p \<in> dirs fs \<and> p \<notin> dirs fs
      then Inr (fs\<lparr>files := (files fs)(p \<mapsto> txt)\<rparr>)
      else Inl OSError)"

section \<open>The model wrapper (model.py)\<close>

definition HBV_PARAMS :: "string list" where
  "HBV_PARAMS = [''Imax'', ''Ce'', ''Sumax'', ''Beta'', ''Pmax'', ''Tlag'', ''Kf'', ''Ks'', ''FM'']"

definition HBV_STATES :: "string list" where
  "HBV_STATES = [''Si'', ''Su'', ''Sf'', ''Ss'', ''Sp'']"

text \<open>
  A value stored in the configuration dictionary: a string, or (between lines 81 and 94
  of model.py) a list of numbers.
\<close>

datatype cfgval = CStr string | CList "pyval list"

type_synonym config_dict = "(string \<times> cfgval) list"

text \<open>The class-level default of \<open>_config\<close>.\<close>

definition default_config :: config_dict where
  "default_config =
     [(''precipitation_file'', CStr ''''),
      (''potential_evaporation_file'', CStr ''''),
      (''mean_temperature_file'', CStr ''''),
      (''parameters'', CStr ''''),
      (''initial_storage'', CStr '''')]"

text \<open>
  The forcing object of the framework, as far as the wrapper uses it: its directory and
  the lookup \<open>forcing[name]\<close> of a file name.
\<close>

record DefaultForcing =
  directory :: "path option"
  filenames :: "(string \<times> string) list"

definition forcing_getitem :: "'a DefaultForcing_scheme \<Rightarrow> string \<Rightarrow> py_error + string" where
  "forcing_getitem f k =
     (case map_of (filenames f) k of None \<Rightarrow> Inl (KeyError k) | Some v \<Rightarrow> Inr v)"

text \<open>
  The wrapper object: \<open>config\<close> is the dictionary that \<open>self._config\<close> denotes,
  \<open>cfg_dir\<close> is \<open>self._cfg_dir\<close>.
\<close>

record HBVMethods =
  forcing :: DefaultForcing
  cfg_dir :: path
  config :: config_dict

definition setitem :: "string \<Rightarrow> cfgval \<Rightarrow> HBVMethods \<Rightarrow> HBVMethods" where
  "setitem k v self = self\<lparr>config := AList.update k v (config self)\<rparr>"

subsection \<open>\<open>json.dumps(d, indent=4)\<close> on the configuration dictionary\<close>

definition hex_digit :: "nat \<Rightarrow> char" where
  "hex_digit d = ''0123456789abcdef'' ! d"

text \<open>
  The escapes of the standard encoder with \<open>ensure_ascii\<close>: quote and backslash get a
  backslash, the five short control escapes, and \<open>\u00XX\<close> for anything else that is not
  printable ASCII. A \<open>char\<close> is a code point below 256.
\<close>

definition json_escape_char :: "char \<Rightarrow> string" where
  "json_escape_char c =
     (if c = CHR 0x22 then [CHR 0x5C, CHR 0x22]
      else if c = CHR 0x5C then [CHR 0x5C, CHR 0x5C]
      else if c = CHR 0x0A then [CHR 0x5C, CHR ''n'']
      else if c = CHR 0x0D then [CHR 0x5C, CHR ''r'']
      else if c = CHR 0x09 then [CHR 0x5C, CHR ''t'']
      else if c = CHR 0x08 then [CHR 0x5C, CHR ''b'']
      else if c = CHR 0x0C then [CHR 0x5C, CHR ''f'']
      else if 32 \<le> (of_char c :: nat) \<and> (of_char c :: nat) \<le> 126 then [c]
      else [CHR 0x5C, CHR ''u'', CHR ''0'', CHR ''0'',
            hex_digit ((of_char c :: nat) div 16), hex_digit ((of_char c :: nat) mod 16)])"

definition encode_string :: "string \<Rightarrow> string" where
  "encode_string s = CHR 0x22 # concat (map json_escape_char s) @ [CHR 0x22]"

definition newline_indent :: "nat \<Rightarrow> string" where
  "newline_indent level = CHR 0x0A # replicate (4 * level) CHR '' ''"

fun dumps_value :: "nat \<Rightarrow> cfgval \<Rightarrow> string" where
  "dumps_value level (CStr s) = encode_string s"
| "dumps_value level (CList xs) =
     (if xs = [] then ''[]''
      else ''['' @ newline_indent (level + 1)
           @ join ('','' @ newline_indent (level + 1)) (map str_val xs)
           @ newline_indent level @ '']'')"

definition json_dumps :: "config_dict \<Rightarrow> string" where
  "json_dumps d =
     (if d = [] then ''{}''
      else ''{'' @ newline_indent 1
           @ join ('','' @ newline_indent 1)
               (map (\<lambda>(k, v). encode_string k @ '': '' @ dumps_value 1 v) d)
           @ newline_indent 0 @ ''}'')"

subsection \<open>\<open>_make_cfg_file\<close>\<close>

text \<open>The keyword arguments: each name present is bound to a vector of numbers.\<close>

type_synonym kwargs = "(string \<times> pyval list) list"

definition msg_no_parameters :: string where
  "msg_no_parameters =
     ''The model needs the parameters argument, consisting of 9 parameters;'' @ [CHR 0x0A]
     @ ''   [Imax, Ce, Sumax, Beta, Pmax, Tlag, Kf, Ks, FM]''"

text \<open>\<open>str(el) for el in v\<close>: iterating a string gives its characters.\<close>

definition str_items :: "cfgval \<Rightarrow> string list" where
  "str_items v = (case v of CList xs \<Rightarrow> map str_val xs | CStr s \<Rightarrow> map (\<lambda>c. [c]) s)"

text \<open>\<open>self._config[k] = ",".join(str(el) for el in self._config[k])\<close>\<close>

definition join_entry :: "string \<Rightarrow> HBVMethods \<Rightarrow> py_error + HBVMethods" where
  "join_entry k self =
     (case map_of (config self) k of
        None \<Rightarrow> Inl (KeyError k)
      | Some v \<Rightarrow> Inr (setitem k (CStr (join '','' (str_items v))) self))"

text \<open>\<open>str(self.forcing.directory / self.forcing[name])\<close>\<close>

definition forcing_path :: "HBVMethods \<Rightarrow> string \<Rightarrow> py_error + string" where
  "forcing_path self name =
     (case forcing_getitem (forcing self) name of
        Inl e \<Rightarrow> Inl e
      | Inr fname \<Rightarrow>
          (case directory (forcing self) of
             None \<Rightarrow> Inl TypeError
           | Some d \<Rightarrow> Inr (str_path (joinpath d fname))))"

text \<open>
  Lines 92 to 111: the two lists become comma-separated strings, the three forcing paths
  are resolved, and the dictionary is written to \<open>HBV_config.json\<close>. The result is what
  the call returns or raises, the wrapper with its dictionary as the call left it, and
  the file system.
\<close>

definition serialize_and_write ::
  "HBVMethods \<Rightarrow> filesystem \<Rightarrow> (py_error + path) \<times> HBVMethods \<times> filesystem" where
  "serialize_and_write self fs =
     (case join_entry ''initial_storage'' self of
        Inl e \<Rightarrow> (Inl e, self, fs)
      | Inr s1 \<Rightarrow>
     (case join_entry ''parameters'' s1 of
        Inl e \<Rightarrow> (Inl e, s1, fs)
      | Inr s2 \<Rightarrow>
     (case forcing_path s2 ''pr'' of
        Inl e \<Rightarrow> (Inl e, s2, fs)
      | Inr p1 \<Rightarrow>
     (let s3 = setitem ''precipitation_file'' (CStr p1) s2 in
      case forcing_path s3 ''evspsblpot'' of
        Inl e \<Rightarrow> (Inl e, s3, fs)
      | Inr p2 \<Rightarrow>
     (let s4 = setitem ''potential_evaporation_file'' (CStr p2) s3 in
      case forcing_path s4 ''tas'' of
        Inl e \<Rightarrow> (Inl e, s4, fs)
      | Inr p3 \<Rightarrow>
     (let s5 = setitem ''mean_temperature_file'' (CStr p3) s4;
          config_file = joinpath (cfg_dir s5) ''HBV_config.json''
      in case write_text fs config_file (json_dumps (config s5)) of
           Inl e \<Rightarrow> (Inl e, s5, fs)
         | Inr fs' \<Rightarrow> (Inr config_file, s5, fs')))))))"

text \<open>Lines 68 to 90: the checks of the two vectors, then the rest of the function.\<close>

definition make_cfg_file ::
  "HBVMethods \<Rightarrow> kwargs \<Rightarrow> filesystem \<Rightarrow> (py_error + path) \<times> HBVMethods \<times> filesystem" where
  "make_cfg_file self kwargs fs =
     (case map_of kwargs ''parameters'' of
        None \<Rightarrow> (Inl (ValueError msg_no_parameters), self, fs)
      | Some ps \<Rightarrow>
          if length ps \<noteq> 9
          then (Inl (ValueError ''Incorrect number of parameters provided.''), self, fs)
          else
            (let s1 = setitem ''parameters'' (CList ps) self in
             case map_of kwargs ''initial_storage'' of
               Some st \<Rightarrow>
                 if length st \<noteq> 5
                 then (Inl (ValueError ''The model needs 5 initial storage terms.''), s1, fs)
                 else serialize_and_write (setitem ''initial_storage'' (CList st) s1) fs
             | None \<Rightarrow>
                 serialize_and_write
                   (setitem ''initial_storage''
                      (CList [PyInt 0, PyInt 0, PyInt 0, PyInt 0, PyInt 0]) s1) fs))"

subsection \<open>The accessors \<open>parameters\<close> and \<open>states\<close>\<close>

text \<open>
  \<open>dict(zip(names, self._config[k].split(','))).items()\<close>: a list stored under the key
  has no \<open>split\<close>.
\<close>

definition named_items :: "string list \<Rightarrow> string \<Rightarrow> HBVMethods \<Rightarrow> py_error + (string \<times> string) list" where
  "named_items names k self =
     (case map_of (config self) k of
        None \<Rightarrow> Inl (KeyError k)
      | Some (CList xs) \<Rightarrow> Inl AttributeError
      | Some (CStr s) \<Rightarrow> Inr (dict_of (zip names (split_on CHR '','' s))))"

definition parameters :: "HBVMethods \<Rightarrow> py_error + (string \<times> string) list" where
  "parameters self = named_items HBV_PARAMS ''parameters'' self"

definition states :: "HBVMethods \<Rightarrow> py_error + (string \<times> string) list" where
  "states self = named_items HBV_STATES ''initial_storage'' self"

text \<open>The arguments that pass the checks of lines 68 to 90.\<close>

definition valid_kwargs :: "kwargs \<Rightarrow> bool" where
  "valid_kwargs kw =
     (case map_of kw ''parameters'' of
        None \<Rightarrow> False
      | Some ps \<Rightarrow> length ps = 9 \<and>
          (case map_of kw ''initial_storage'' of None \<Rightarrow> True | Some st \<Rightarrow> length st = 5))"

subsection \<open>A small installation to run the functions on\<close>

definition demo_forcing :: DefaultForcing where
  "demo_forcing =
     \<lparr>directory = Some [''data''],
      filenames = [(''pr'', ''pr.nc''), (''evspsblpot'', ''pev.nc''), (''tas'', ''tas.nc'')]\<rparr>"

definition demo_model :: HBVMethods where
  "demo_model = \<lparr>forcing = demo_forcing, cfg_dir = [''run''], config = default_config\<rparr>"

definition demo_fs :: filesystem where
  "demo_fs = \<lparr>dirs = {[''run'']}, files = Map.empty\<rparr>"

definition ints :: "int list \<Rightarrow> pyval list" where
  "ints xs = map PyInt xs"

subsection \<open>The text of a number\<close>

text \<open>
  The characters that Python prints for an \<open>int\<close> or a \<open>float\<close>: digits, sign, point,
  exponent mark, and the letters of \<open>inf\<close> and \<open>nan\<close>. A float carried by its text is
  well formed when the text is made of them.
\<close>

definition number_chars :: "char list" where
  "number_chars = ''0123456789+-.einfa''"

definition numeric_token :: "string \<Rightarrow> bool" where
  "numeric_token t = (t \<noteq> [] \<and> list_all (\<lambda>c. c \<in> set number_chars) t)"

fun wf_val :: "pyval \<Rightarrow> bool" where
  "wf_val (PyInt i) = True"
| "wf_val (PyFloat r) = numeric_token r"

text \<open>
  What the call needs from its surroundings to reach the end: the forcing has a directory
  and the three file names, and the configuration directory exists.
\<close>

definition env_ok :: "HBVMethods \<Rightarrow> filesystem \<Rightarrow> bool" where
  "env_ok self fs =
     (directory (forcing self) \<noteq> None
      \<and> map_of (filenames (forcing self)) ''pr'' \<noteq> None
      \<and> map_of (filenames (forcing self)) ''evspsblpot'' \<noteq> None
      \<and> map_of (filenames (forcing self)) ''tas'' \<noteq> None
      \<and> cfg_dir self \<in> dirs fs
      \<and> joinpath (cfg_dir self) ''HBV_config.json'' \<notin> dirs fs)"

text \<open>The dictionary once lines 93 and 94 have run.\<close>

definition joined :: "pyval list \<Rightarrow> cfgval" where
  "joined xs = CStr (join '','' (map str_val xs))"

text \<open>The default of line 90.\<close>

definition zeros :: "pyval list" where
  "zeros = [PyInt 0, PyInt 0, PyInt 0, PyInt 0, PyInt 0]"

definition demo_parameters :: "pyval list" where
  "demo_parameters =
     [PyInt 2, PyFloat ''0.8'', PyInt 460, PyFloat ''1.8'', PyFloat ''0.001'', PyInt 4,
      PyFloat ''0.01'', PyFloat ''1e-05'', PyInt (- 1)]"

definition demo_storage :: "pyval list" where
  "demo_storage = [PyInt 0, PyInt 10, PyFloat ''2.5'', PyInt 100, PyInt 0]"

definition demo_kwargs :: kwargs where
  "demo_kwargs = [(''parameters'', demo_parameters), (''initial_storage'', demo_storage)]"

definition short_storage_kwargs :: kwargs where
  "short_storage_kwargs = [(''parameters'', demo_parameters), (''initial_storage'', ints [1, 2, 3, 4])]"

section \<open>The forcing container (forcing.py)\<close>

text \<open>
  \<open>HBVForcing\<close> adds the name of the forcing file to the framework's forcing object.
\<close>

record HBVForcing = DefaultForcing +
  forcing_file :: "string option"

text \<open>A calendar day: what \<open>pd.Timestamp\<close> makes of a year-month-day text.\<close>

datatype timestamp = Date nat nat nat

text \<open>
  The dataset that \<open>to_xarray\<close> returns: the index under its name, the data variables
  along it, and the attributes. A float of the table is the real number it stands for;
  the function does no arithmetic on the data columns.
\<close>

record Dataset =
  coords :: "(string \<times> timestamp list) list"
  data_vars :: "(string \<times> real list) list"
  attrs :: "(string \<times> string) list"

text \<open>\<open>int(x)\<close> of a float: towards zero.\<close>

definition int_of_float :: "real \<Rightarrow> int" where
  "int_of_float x = (if 0 \<le> x then \<lfloor>x\<rfloor> else \<lceil>x\<rceil>)"

text \<open>\<open>pd.DataFrame(table, columns=names)\<close>: every row needs one value per name.\<close>

definition DataFrame :: "real list list \<Rightarrow> string list \<Rightarrow> py_error + (string \<times> real list) list" where
  "DataFrame table names =
     (if list_all (\<lambda>row. length row = length names) table
      then Inr (map (\<lambda>j. (names ! j, map (\<lambda>row. row ! j) table)) [0 ..< length names])
      else Inl (ValueError ''Shape of passed values does not match the columns''))"

text \<open>The first error of a list of results, or all the values.\<close>

fun collect :: "('e + 'a) list \<Rightarrow> 'e + 'a list" where
  "collect [] = Inr []"
| "collect (Inl e # rs) = Inl e"
| "collect (Inr x # rs) = (case collect rs of Inl e \<Rightarrow> Inl e | Inr xs \<Rightarrow> Inr (x # xs))"

text \<open>
  \<open>to_xarray\<close>. Reading the file (\<open>np.loadtxt\<close>, giving the table of a file of two or more
  rows) and making a timestamp of a text (\<open>pd.Timestamp\<close>) are the libraries' and are
  taken as arguments.
\<close>

definition to_xarray ::
  "(path \<Rightarrow> py_error + real list list) \<Rightarrow> (string \<Rightarrow> py_error + timestamp)
     \<Rightarrow> HBVForcing \<Rightarrow> py_error + Dataset" where
  "to_xarray loadtxt Timestamp self =
     (case (directory self, forcing_file self) of
        (None, _) \<Rightarrow> Inl (ValueError ''Directory or forcing_file is not set'')
      | (Some d, None) \<Rightarrow> Inl (ValueError ''Directory or forcing_file is not set'')
      | (Some d, Some f) \<Rightarrow>
          (case loadtxt (joinpath d f) of
             Inl e \<Rightarrow> Inl e
           | Inr forcing_table \<Rightarrow>
          (case DataFrame forcing_table [''year'', ''month'', ''day'', ''pr'', ''pev''] of
             Inl e \<Rightarrow> Inl e
           | Inr df_in \<Rightarrow>
          (case collect
                  (map (\<lambda>x. Timestamp
                          (str_int (int_of_float (x ! 0)) @ ''-''
                           @ str_int (int_of_float (x ! 1)) @ ''-''
                           @ str_int (int_of_float (x ! 2))))
                     forcing_table) of
             Inl e \<Rightarrow> Inl e
           | Inr index \<Rightarrow>
               Inr \<lparr>coords = [(''time'', index)],
                    data_vars = filter (\<lambda>(n, c). n \<notin> set [''year'', ''month'', ''day'']) df_in,
                    attrs =
                      [(''title'', ''HBV forcing data''),
                       (''history'',
                        ''Created by ewatercycle_HBV.forcing.HBVForcing.to_xarray()'')]\<rparr>))))"

text \<open>A reading of year-month-day texts, to run \<open>to_xarray\<close> on.\<close>

definition digit_val :: "char \<Rightarrow> nat option" where
  "digit_val c = (if c \<in> set ''0123456789'' then Some (of_char c - 48) else None)"

fun parse_nat :: "nat \<Rightarrow> string \<Rightarrow> nat option" where
  "parse_nat acc [] = Some acc"
| "parse_nat acc (c # cs) =
     (case digit_val c of None \<Rightarrow> None | Some d \<Rightarrow> parse_nat (10 * acc + d) cs)"

definition ymd_timestamp :: "string \<Rightarrow> py_error + timestamp" where
  "ymd_timestamp s =
     (case split_on CHR ''-'' s of
        [y, m, d] \<Rightarrow>
          (if y = [] \<or> m = [] \<or> d = [] then Inl (ValueError s)
           else (case (parse_nat 0 y, parse_nat 0 m, parse_nat 0 d) of
                   (Some yy, Some mm, Some dd) \<Rightarrow>
                     if 1 \<le> mm \<and> mm \<le> 12 \<and> 1 \<le> dd \<and> dd \<le> 31 then Inr (Date yy mm dd)
                     else Inl (ValueError s)
                 | _ \<Rightarrow> Inl (ValueError s)))
      | _ \<Rightarrow> Inl (ValueError s))"

definition demo_table :: "real list list" where
  "demo_table = [[2000, 1, 1, 1.5, 0.3], [2000, 1, 2, 0.0, 0.5]]"

definition demo_loadtxt :: "path \<Rightarrow> py_error + real list list" where
  "demo_loadtxt p = (if p = [''data'', ''forcing.txt''] then Inr demo_table else Inl OSError)"

definition demo_hbv_forcing :: HBVForcing where
  "demo_hbv_forcing =
     \<lparr>directory = Some [''data''], filenames = [], forcing_file = Some ''forcing.txt''\<rparr>"

definition no_directory_forcing :: HBVForcing where
  "no_directory_forcing =
     \<lparr>directory = None, filenames = [], forcing_file = Some ''forcing.txt''\<rparr>"

definition no_file_forcing :: HBVForcing where
  "no_file_forcing = \<lparr>directory = Some [''data''], filenames = [], forcing_file = None\<rparr>"

text \<open>Every vector of the keyword arguments holds numbers with a well-formed text.\<close>

definition numeric_kwargs :: "kwargs \<Rightarrow> bool" where
  "numeric_kwargs kw = list_all (\<lambda>kv. list_all wf_val (snd kv)) kw"

text \<open>
  One member of the written document: on a line of its own, indented by four spaces, the
  key and the value as quoted strings.
\<close>

definition member_line :: "string \<Rightarrow> string \<Rightarrow> string" where
  "member_line k v = CHR 0x0A # ''    '' @ encode_string k @ '': '' @ encode_string v"

definition demo_document :: string where
  \<open>demo_document =
     ''{\<newline>    "precipitation_file": "/data/pr.nc",\<newline>    "potential_evaporation_file": "/data/pev.nc",\<newline>    "mean_temperature_file": "/data/tas.nc",\<newline>    "parameters": "2,0.8,460,1.8,0.001,4,0.01,1e-05,-1",\<newline>    "initial_storage": "0,10,2.5,100,0"\<newline>}''\<close>

section \<open>Validation of the two vectors\<close>

lemma join_entry_no_ValueError: "join_entry k s \<noteq> Inl (ValueError m)"
  by (simp add: join_entry_def split: option.splits)

lemma forcing_path_no_ValueError: "forcing_path s n \<noteq> Inl (ValueError m)"
  by (simp add: forcing_path_def forcing_getitem_def split: option.splits sum.splits)

lemma write_text_no_ValueError: "write_text fs p t \<noteq> Inl (ValueError m)"
  by (simp add: write_text_def)

lemma serialize_and_write_no_ValueError:
  "fst (serialize_and_write s fs) \<noteq> Inl (ValueError m)"
  unfolding serialize_and_write_def Let_def
  by (auto split: sum.splits
      simp: join_entry_no_ValueError forcing_path_no_ValueError write_text_no_ValueError)

lemma make_cfg_file_ValueError_iff:
  "(\<exists>msg. fst (make_cfg_file self kwargs fs) = Inl (ValueError msg))
     \<longleftrightarrow> \<not> valid_kwargs kwargs"
  by (auto simp: make_cfg_file_def valid_kwargs_def Let_def serialize_and_write_no_ValueError
      split: option.splits if_splits)

text \<open>
  C2. \<open>_make_cfg_file\<close> raises the validation error (a \<open>ValueError\<close> in the code) when
  \<open>parameters\<close> is absent, when its length is not 9, and when \<open>initial_storage\<close> is given
  with a length other than 5; and it raises a \<open>ValueError\<close> in no other case: never for
  nine parameters together with an absent or five-element \<open>initial_storage\<close>.
\<close>

theorem make_cfg_file_validation:
  "(map_of kwargs ''parameters'' = None \<longrightarrow>
      fst (make_cfg_file self kwargs fs) = Inl (ValueError msg_no_parameters))
   \<and> (\<forall>ps. map_of kwargs ''parameters'' = Some ps \<and> length ps \<noteq> 9 \<longrightarrow>
      fst (make_cfg_file self kwargs fs)
        = Inl (ValueError ''Incorrect number of parameters provided.''))
   \<and> (\<forall>ps st. map_of kwargs ''parameters'' = Some ps \<and> length ps = 9 \<and>
        map_of kwargs ''initial_storage'' = Some st \<and> length st \<noteq> 5 \<longrightarrow>
      fst (make_cfg_file self kwargs fs)
        = Inl (ValueError ''The model needs 5 initial storage terms.''))
   \<and> ((\<exists>msg. fst (make_cfg_file self kwargs fs) = Inl (ValueError msg))
        \<longleftrightarrow> \<not> valid_kwargs kwargs)"
proof (intro conjI allI impI)
  assume "map_of kwargs ''parameters'' = None"
  then show "fst (make_cfg_file self kwargs fs) = Inl (ValueError msg_no_parameters)"
    by (simp add: make_cfg_file_def)
next
  fix ps
  assume "map_of kwargs ''parameters'' = Some ps \<and> length ps \<noteq> 9"
  then show "fst (make_cfg_file self kwargs fs)
      = Inl (ValueError ''Incorrect number of parameters provided.'')"
    by (simp add: make_cfg_file_def)
next
  fix ps st
  assume "map_of kwargs ''parameters'' = Some ps \<and> length ps = 9 \<and>
        map_of kwargs ''initial_storage'' = Some st \<and> length st \<noteq> 5"
  then show "fst (make_cfg_file self kwargs fs)
      = Inl (ValueError ''The model needs 5 initial storage terms.'')"
    by (simp add: make_cfg_file_def)
next
  show "(\<exists>msg. fst (make_cfg_file self kwargs fs) = Inl (ValueError msg))
      \<longleftrightarrow> \<not> valid_kwargs kwargs"
    by (rule make_cfg_file_ValueError_iff)
qed

theorem make_cfg_file_validation_witness:
  "fst (make_cfg_file demo_model [(''parameters'', ints [1, 2, 3, 4, 5, 6, 7, 8])] demo_fs)
     = Inl (ValueError ''Incorrect number of parameters provided.'')
   \<and> fst (make_cfg_file demo_model [(''parameters'', ints [1, 2, 3, 4, 5, 6, 7, 8, 9, 10])] demo_fs)
     = Inl (ValueError ''Incorrect number of parameters provided.'')
   \<and> fst (make_cfg_file demo_model [(''initial_storage'', ints [1, 2, 3, 4, 5])] demo_fs)
     = Inl (ValueError msg_no_parameters)
   \<and> fst (make_cfg_file demo_model
        [(''parameters'', ints [1, 2, 3, 4, 5, 6, 7, 8, 9]), (''initial_storage'', ints [1, 2, 3, 4])]
        demo_fs)
     = Inl (ValueError ''The model needs 5 initial storage terms.'')
   \<and> fst (make_cfg_file demo_model
        [(''parameters'', ints [1, 2, 3, 4, 5, 6, 7, 8, 9]), (''initial_storage'', ints [1, 2, 3, 4, 5, 6])]
        demo_fs)
     = Inl (ValueError ''The model needs 5 initial storage terms.'')
   \<and> valid_kwargs [(''parameters'', ints [1, 2, 3, 4, 5, 6, 7, 8, 9])]
   \<and> (\<nexists>msg. fst (make_cfg_file demo_model [(''parameters'', ints [1, 2, 3, 4, 5, 6, 7, 8, 9])] demo_fs)
        = Inl (ValueError msg))
   \<and> valid_kwargs
        [(''parameters'', ints [1, 2, 3, 4, 5, 6, 7, 8, 9]), (''initial_storage'', ints [1, 2, 3, 4, 5])]
   \<and> (\<nexists>msg. fst (make_cfg_file demo_model
        [(''parameters'', ints [1, 2, 3, 4, 5, 6, 7, 8, 9]), (''initial_storage'', ints [1, 2, 3, 4, 5])]
        demo_fs) = Inl (ValueError msg))"
  using
    make_cfg_file_validation [of "[(''parameters'', ints [1, 2, 3, 4, 5, 6, 7, 8])]" demo_model demo_fs]
    make_cfg_file_validation [of "[(''parameters'', ints [1, 2, 3, 4, 5, 6, 7, 8, 9, 10])]" demo_model demo_fs]
    make_cfg_file_validation [of "[(''initial_storage'', ints [1, 2, 3, 4, 5])]" demo_model demo_fs]
    make_cfg_file_validation [of "[(''parameters'', ints [1, 2, 3, 4, 5, 6, 7, 8, 9]), (''initial_storage'', ints [1, 2, 3, 4])]" demo_model demo_fs]
    make_cfg_file_validation [of "[(''parameters'', ints [1, 2, 3, 4, 5, 6, 7, 8, 9]), (''initial_storage'', ints [1, 2, 3, 4, 5, 6])]" demo_model demo_fs]
    make_cfg_file_validation [of "[(''parameters'', ints [1, 2, 3, 4, 5, 6, 7, 8, 9])]" demo_model demo_fs]
    make_cfg_file_validation [of "[(''parameters'', ints [1, 2, 3, 4, 5, 6, 7, 8, 9]), (''initial_storage'', ints [1, 2, 3, 4, 5])]" demo_model demo_fs]
  by (simp add: valid_kwargs_def ints_def)

section \<open>Decimal text, \<open>join\<close> and \<open>split\<close>\<close>

lemma digit_char_in: "d < 10 \<Longrightarrow> digit_char d \<in> set ''0123456789''"
  unfolding digit_char_def by (rule nth_mem) simp

lemma str_nat_digits: "set (str_nat n) \<subseteq> set ''0123456789''"
proof (induction n rule: str_nat.induct)
  case (1 n)
  show ?case
  proof (cases "n < 10")
    case True
    then show ?thesis using digit_char_in [of n] by (subst str_nat.simps) simp
  next
    case False
    have "n mod 10 < 10" by simp
    then have "digit_char (n mod 10) \<in> set ''0123456789''" by (rule digit_char_in)
    with False 1 show ?thesis by (subst str_nat.simps) simp
  qed
qed

lemma str_nat_nonempty: "str_nat n \<noteq> []"
  by (subst str_nat.simps) simp

lemma digits_number_chars: "set ''0123456789'' \<subseteq> set number_chars"
  by (simp add: number_chars_def)

lemma str_nat_number_chars: "c \<in> set (str_nat n) \<Longrightarrow> c \<in> set number_chars"
  using str_nat_digits [of n] digits_number_chars by blast

lemma minus_number_chars: "CHR ''-'' \<in> set number_chars"
  by (simp add: number_chars_def)

lemma numeric_token_str_int: "numeric_token (str_int i)"
proof (cases "i < 0")
  case True
  then have "str_int i = CHR ''-'' # str_nat (nat (- i))" by (simp add: str_int_def)
  then show ?thesis
    using minus_number_chars str_nat_number_chars [of _ "nat (- i)"]
    by (auto simp: numeric_token_def list_all_iff)
next
  case False
  then have "str_int i = str_nat (nat i)" by (simp add: str_int_def)
  then show ?thesis
    using str_nat_number_chars [of _ "nat i"] str_nat_nonempty [of "nat i"]
    by (simp add: numeric_token_def list_all_iff)
qed

lemma numeric_token_str_val: "wf_val v \<Longrightarrow> numeric_token (str_val v)"
  by (cases v) (simp_all add: numeric_token_str_int)

lemma comma_not_number_char: "CHR '','' \<notin> set number_chars"
  by (simp add: number_chars_def)

lemma numeric_token_no_comma: "numeric_token t \<Longrightarrow> CHR '','' \<notin> set t"
  using comma_not_number_char by (auto simp: numeric_token_def list_all_iff)

lemma split_on_no_sep: "d \<notin> set t \<Longrightarrow> split_on d t = [t]"
  by (induction t) auto

lemma split_on_append: "d \<notin> set t \<Longrightarrow> split_on d (t @ d # rest) = t # split_on d rest"
proof (induction t)
  case Nil
  then show ?case by simp
next
  case (Cons c t)
  then have "c \<noteq> d" and "d \<notin> set t" by auto
  with Cons.IH show ?case by simp
qed

lemma split_on_join:
  "ts \<noteq> [] \<Longrightarrow> \<forall>t \<in> set ts. d \<notin> set t \<Longrightarrow> split_on d (join [d] ts) = ts"
proof (induction "[d]" ts rule: join.induct)
  case 1
  then show ?case by simp
next
  case (2 x)
  then show ?case by (simp add: split_on_no_sep)
next
  case (3 x y ys)
  then show ?case by (simp add: split_on_append)
qed

lemma length_join_split: "length (split_on d s) = Suc (count_list s d)"
  by (induction s) (auto split: list.splits)

lemma update_fresh: "k \<notin> fst ` set al \<Longrightarrow> AList.update k v al = al @ [(k, v)]"
  by (induction al) auto

lemma foldl_update_distinct:
  "distinct (map fst (acc @ xs)) \<Longrightarrow>
   foldl (\<lambda>d (k, v). AList.update k v d) acc xs = acc @ xs"
proof (induction xs arbitrary: acc)
  case Nil
  then show ?case by simp
next
  case (Cons x xs)
  obtain k v where x: "x = (k, v)" by (cases x)
  from Cons.prems x have fresh: "k \<notin> fst ` set acc" by auto
  from Cons.prems x have "distinct (map fst ((acc @ [(k, v)]) @ xs))" by simp
  then have "foldl (\<lambda>d (k, v). AList.update k v d) (acc @ [(k, v)]) xs = (acc @ [(k, v)]) @ xs"
    by (rule Cons.IH)
  with fresh x show ?case by (simp add: update_fresh)
qed

lemma dict_of_distinct: "distinct (map fst xs) \<Longrightarrow> dict_of xs = xs"
  using foldl_update_distinct [of "[]" xs] by (simp add: dict_of_def)

lemma dict_of_zip: "distinct names \<Longrightarrow> dict_of (zip names vs) = zip names vs"
  by (rule dict_of_distinct) (simp add: map_fst_zip_take)

section \<open>The dictionary after \<open>_make_cfg_file\<close>\<close>

lemma setitem_simps [simp]:
  "forcing (setitem k v s) = forcing s"
  "cfg_dir (setitem k v s) = cfg_dir s"
  "config (setitem k v s) = AList.update k v (config s)"
  by (simp_all add: setitem_def)

lemma forcing_path_setitem [simp]: "forcing_path (setitem k v s) n = forcing_path s n"
  by (simp add: forcing_path_def split: sum.splits)

lemma join_entry_Some:
  "map_of (config s) k = Some v \<Longrightarrow>
   join_entry k s = Inr (setitem k (CStr (join '','' (str_items v))) s)"
  by (simp add: join_entry_def)

lemma serialize_and_write_entries:
  assumes "map_of (config s) ''initial_storage'' = Some (CList st)"
    and "map_of (config s) ''parameters'' = Some (CList ps)"
  shows "map_of (config (fst (snd (serialize_and_write s fs)))) ''parameters'' = Some (joined ps)"
    and "map_of (config (fst (snd (serialize_and_write s fs)))) ''initial_storage'' = Some (joined st)"
  using assms
  by (simp_all add: serialize_and_write_def join_entry_Some update_conv' str_items_def joined_def
      Let_def split: sum.splits)

lemma serialize_and_write_frame:
  "forcing (fst (snd (serialize_and_write s fs))) = forcing s"
  "cfg_dir (fst (snd (serialize_and_write s fs))) = cfg_dir s"
  by (auto simp: serialize_and_write_def join_entry_def Let_def split: sum.splits option.splits)

lemma make_cfg_file_given:
  assumes "map_of kwargs ''parameters'' = Some ps" "length ps = 9"
    and "map_of kwargs ''initial_storage'' = Some st" "length st = 5"
  shows "make_cfg_file self kwargs fs =
     serialize_and_write
       (setitem ''initial_storage'' (CList st) (setitem ''parameters'' (CList ps) self)) fs"
  using assms by (simp add: make_cfg_file_def)

lemma make_cfg_file_default:
  assumes "map_of kwargs ''parameters'' = Some ps" "length ps = 9"
    and "map_of kwargs ''initial_storage'' = None"
  shows "make_cfg_file self kwargs fs =
     serialize_and_write
       (setitem ''initial_storage'' (CList zeros) (setitem ''parameters'' (CList ps) self)) fs"
  using assms by (simp add: make_cfg_file_def zeros_def)

lemma entries_after_setitems:
  "map_of (config (setitem ''initial_storage'' (CList st) (setitem ''parameters'' (CList ps) self)))
     ''initial_storage'' = Some (CList st)"
  "map_of (config (setitem ''initial_storage'' (CList st) (setitem ''parameters'' (CList ps) self)))
     ''parameters'' = Some (CList ps)"
  by (simp_all add: update_conv')

lemma named_items_joined:
  assumes "map_of (config s) k = Some (joined xs)" and "xs \<noteq> []"
    and "list_all wf_val xs" and "distinct names"
  shows "named_items names k s = Inr (zip names (map str_val xs))"
proof -
  have "\<forall>t \<in> set (map str_val xs). CHR '','' \<notin> set t"
    using assms(3) numeric_token_no_comma [OF numeric_token_str_val]
    by (auto simp: list_all_iff)
  moreover have "map str_val xs \<noteq> []" using assms(2) by simp
  ultimately have "split_on CHR '','' (join '','' (map str_val xs)) = map str_val xs"
    using split_on_join [of "map str_val xs" "CHR '',''"] by simp
  with assms(1,4) show ?thesis
    by (simp add: named_items_def joined_def dict_of_zip)
qed

lemma distinct_HBV_PARAMS: "distinct HBV_PARAMS"
  by (simp add: HBV_PARAMS_def)

lemma distinct_HBV_STATES: "distinct HBV_STATES"
  by (simp add: HBV_STATES_def)

text \<open>
  C1. For nine parameters and five initial storages (numbers: an \<open>int\<close>, or a float
  with a well-formed text), after \<open>_make_cfg_file\<close> the accessors \<open>parameters\<close> and
  \<open>states\<close> pair the canonical names, in order, with the decimal text of the original
  values. This holds of the dictionary the call leaves behind, whether or not the later
  steps of the call (forcing paths, writing the file) succeed.
\<close>

theorem config_round_trip:
  assumes "map_of kwargs ''parameters'' = Some ps" and "length ps = 9"
    and "map_of kwargs ''initial_storage'' = Some st" and "length st = 5"
    and "list_all wf_val ps" and "list_all wf_val st"
    and "make_cfg_file self kwargs fs = (r, self', fs')"
  shows "parameters self' = Inr (zip HBV_PARAMS (map str_val ps))
       \<and> states self' = Inr (zip HBV_STATES (map str_val st))"
proof -
  let ?s = "setitem ''initial_storage'' (CList st) (setitem ''parameters'' (CList ps) self)"
  have run: "serialize_and_write ?s fs = (r, self', fs')"
    using assms(1-4,7) by (simp add: make_cfg_file_given)
  then have self': "self' = fst (snd (serialize_and_write ?s fs))" by simp
  have p: "map_of (config self') ''parameters'' = Some (joined ps)"
    unfolding self' by (rule serialize_and_write_entries(1) [OF entries_after_setitems])
  have s: "map_of (config self') ''initial_storage'' = Some (joined st)"
    unfolding self' by (rule serialize_and_write_entries(2) [OF entries_after_setitems])
  from assms(2) have "ps \<noteq> []" by auto
  with p assms(5) have "parameters self' = Inr (zip HBV_PARAMS (map str_val ps))"
    unfolding parameters_def by (intro named_items_joined distinct_HBV_PARAMS)
  moreover
  from assms(4) have "st \<noteq> []" by auto
  with s assms(6) have "states self' = Inr (zip HBV_STATES (map str_val st))"
    unfolding states_def by (intro named_items_joined distinct_HBV_STATES)
  ultimately show ?thesis by simp
qed

lemmas str_eval = str_int_def str_nat.simps digit_char_def

theorem config_round_trip_witness:
  "map_of demo_kwargs ''parameters'' = Some demo_parameters \<and> length demo_parameters = 9
   \<and> map_of demo_kwargs ''initial_storage'' = Some demo_storage \<and> length demo_storage = 5
   \<and> list_all wf_val demo_parameters \<and> list_all wf_val demo_storage
   \<and> parameters (fst (snd (make_cfg_file demo_model demo_kwargs demo_fs)))
       = Inr [(''Imax'', ''2''), (''Ce'', ''0.8''), (''Sumax'', ''460''), (''Beta'', ''1.8''),
              (''Pmax'', ''0.001''), (''Tlag'', ''4''), (''Kf'', ''0.01''), (''Ks'', ''1e-05''),
              (''FM'', ''-1'')]
   \<and> states (fst (snd (make_cfg_file demo_model demo_kwargs demo_fs)))
       = Inr [(''Si'', ''0''), (''Su'', ''10''), (''Sf'', ''2.5''), (''Ss'', ''100''), (''Sp'', ''0'')]"
proof -
  have h1: "map_of demo_kwargs ''parameters'' = Some demo_parameters"
    by (simp add: demo_kwargs_def)
  have h2: "length demo_parameters = 9" by (simp add: demo_parameters_def)
  have h3: "map_of demo_kwargs ''initial_storage'' = Some demo_storage"
    by (simp add: demo_kwargs_def)
  have h4: "length demo_storage = 5" by (simp add: demo_storage_def)
  have h5: "list_all wf_val demo_parameters"
    by (simp add: demo_parameters_def numeric_token_def number_chars_def)
  have h6: "list_all wf_val demo_storage"
    by (simp add: demo_storage_def numeric_token_def number_chars_def)
  have h7: "make_cfg_file demo_model demo_kwargs demo_fs
      = (fst (make_cfg_file demo_model demo_kwargs demo_fs),
         fst (snd (make_cfg_file demo_model demo_kwargs demo_fs)),
         snd (snd (make_cfg_file demo_model demo_kwargs demo_fs)))" by simp
  have vals: "zip HBV_PARAMS (map str_val demo_parameters)
       = [(''Imax'', ''2''), (''Ce'', ''0.8''), (''Sumax'', ''460''), (''Beta'', ''1.8''),
              (''Pmax'', ''0.001''), (''Tlag'', ''4''), (''Kf'', ''0.01''), (''Ks'', ''1e-05''),
              (''FM'', ''-1'')]"
    by (simp add: HBV_PARAMS_def demo_parameters_def str_eval)
  have vals2: "zip HBV_STATES (map str_val demo_storage)
       = [(''Si'', ''0''), (''Su'', ''10''), (''Sf'', ''2.5''), (''Ss'', ''100''), (''Sp'', ''0'')]"
    by (simp add: HBV_STATES_def demo_storage_def str_eval)
  show ?thesis
    using config_round_trip [OF h1 h2 h3 h4 h5 h6 h7] h1 h2 h3 h4 h5 h6
    by (simp only: vals vals2 simp_thms)
qed

lemma wf_zeros: "list_all wf_val zeros"
  by (simp add: zeros_def)

lemma str_zeros: "map str_val zeros = [''0'', ''0'', ''0'', ''0'', ''0'']"
  by (simp add: zeros_def str_eval)

lemma serialize_and_write_env_ok:
  assumes "env_ok s fs"
    and "map_of (config s) ''initial_storage'' \<noteq> None"
    and "map_of (config s) ''parameters'' \<noteq> None"
  shows "fst (serialize_and_write s fs) = Inr (joinpath (cfg_dir s) ''HBV_config.json'')"
  using assms
  by (auto simp: serialize_and_write_def env_ok_def join_entry_def forcing_path_def
      forcing_getitem_def write_text_def joinpath_def Let_def update_conv')

text \<open>
  C3. With nine parameters and no \<open>initial_storage\<close> argument the call raises no
  validation error and, where its surroundings allow the file to be written, returns the
  path; in every case the \<open>states\<close> accessor then gives the five names with the
  decimal text \<open>0\<close>.
\<close>

theorem default_initial_storage:
  assumes "map_of kwargs ''parameters'' = Some ps" and "length ps = 9"
    and "map_of kwargs ''initial_storage'' = None"
    and "make_cfg_file self kwargs fs = (r, self', fs')"
  shows "(\<forall>msg. r \<noteq> Inl (ValueError msg))
       \<and> (env_ok self fs \<longrightarrow> r = Inr (joinpath (cfg_dir self) ''HBV_config.json''))
       \<and> states self'
           = Inr [(''Si'', ''0''), (''Su'', ''0''), (''Sf'', ''0''), (''Ss'', ''0''), (''Sp'', ''0'')]"
proof -
  let ?s = "setitem ''initial_storage'' (CList zeros) (setitem ''parameters'' (CList ps) self)"
  have run: "serialize_and_write ?s fs = (r, self', fs')"
    using assms by (simp add: make_cfg_file_default)
  then have r: "r = fst (serialize_and_write ?s fs)"
    and self': "self' = fst (snd (serialize_and_write ?s fs))" by simp_all
  have a: "\<forall>msg. r \<noteq> Inl (ValueError msg)"
    unfolding r by (simp add: serialize_and_write_no_ValueError)
  have b: "r = Inr (joinpath (cfg_dir self) ''HBV_config.json'')" if "env_ok self fs"
  proof -
    from that have "env_ok ?s fs" by (simp add: env_ok_def)
    then have "fst (serialize_and_write ?s fs) = Inr (joinpath (cfg_dir ?s) ''HBV_config.json'')"
      by (rule serialize_and_write_env_ok) (simp_all add: update_conv')
    then show ?thesis by (simp add: r)
  qed
  have "map_of (config self') ''initial_storage'' = Some (joined zeros)"
    unfolding self' by (rule serialize_and_write_entries(2) [OF entries_after_setitems])
  then have "states self' = Inr (zip HBV_STATES (map str_val zeros))"
    unfolding states_def
    by (rule named_items_joined) (simp_all add: zeros_def distinct_HBV_STATES)
  then have c: "states self'
      = Inr [(''Si'', ''0''), (''Su'', ''0''), (''Sf'', ''0''), (''Ss'', ''0''), (''Sp'', ''0'')]"
    by (simp add: str_zeros HBV_STATES_def)
  from a b c show ?thesis by blast
qed

theorem default_initial_storage_witness:
  "map_of [(''parameters'', demo_parameters)] ''parameters'' = Some demo_parameters
   \<and> length demo_parameters = 9
   \<and> map_of [(''parameters'', demo_parameters)] ''initial_storage'' = None
   \<and> env_ok demo_model demo_fs
   \<and> fst (make_cfg_file demo_model [(''parameters'', demo_parameters)] demo_fs)
       = Inr [''run'', ''HBV_config.json'']
   \<and> states (fst (snd (make_cfg_file demo_model [(''parameters'', demo_parameters)] demo_fs)))
       = Inr [(''Si'', ''0''), (''Su'', ''0''), (''Sf'', ''0''), (''Ss'', ''0''), (''Sp'', ''0'')]"
proof -
  have h1: "map_of [(''parameters'', demo_parameters)] ''parameters'' = Some demo_parameters"
    by simp
  have h2: "length demo_parameters = 9" by (simp add: demo_parameters_def)
  have h3: "map_of [(''parameters'', demo_parameters)] ''initial_storage'' = None" by simp
  have h4: "make_cfg_file demo_model [(''parameters'', demo_parameters)] demo_fs
      = (fst (make_cfg_file demo_model [(''parameters'', demo_parameters)] demo_fs),
         fst (snd (make_cfg_file demo_model [(''parameters'', demo_parameters)] demo_fs)),
         snd (snd (make_cfg_file demo_model [(''parameters'', demo_parameters)] demo_fs)))"
    by simp
  have env: "env_ok demo_model demo_fs"
    by (simp add: env_ok_def demo_model_def demo_forcing_def demo_fs_def joinpath_def)
  have dir: "joinpath (cfg_dir demo_model) ''HBV_config.json'' = [''run'', ''HBV_config.json'']"
    by (simp add: demo_model_def joinpath_def)
  show ?thesis
    using default_initial_storage [OF h1 h2 h3 h4] h1 h2 h3 env
    by (simp only: dir simp_thms)
qed

section \<open>Failing calls\<close>

lemma serialize_and_write_error_fs:
  "fst (serialize_and_write s fs) = Inl e \<Longrightarrow> snd (snd (serialize_and_write s fs)) = fs"
  by (auto simp: serialize_and_write_def Let_def split: sum.splits)

lemma make_cfg_file_error_fs:
  "fst (make_cfg_file self kwargs fs) = Inl e \<Longrightarrow> snd (snd (make_cfg_file self kwargs fs)) = fs"
  by (auto simp: make_cfg_file_def Let_def serialize_and_write_error_fs
      split: option.splits if_splits)

text \<open>
  C4. When the arguments fail validation the call raises the validation error and the
  file system is as it was: nothing is written. More generally no failing call writes,
  so a changed file system means that validation had succeeded.
\<close>

theorem no_write_on_validation_failure:
  "(\<not> valid_kwargs kwargs \<longrightarrow>
      (\<exists>msg. fst (make_cfg_file self kwargs fs) = Inl (ValueError msg))
      \<and> snd (snd (make_cfg_file self kwargs fs)) = fs)
   \<and> (\<forall>e. fst (make_cfg_file self kwargs fs) = Inl e \<longrightarrow>
        snd (snd (make_cfg_file self kwargs fs)) = fs)
   \<and> (snd (snd (make_cfg_file self kwargs fs)) \<noteq> fs \<longrightarrow> valid_kwargs kwargs)"
proof -
  have a: "\<exists>msg. fst (make_cfg_file self kwargs fs) = Inl (ValueError msg)"
    if "\<not> valid_kwargs kwargs"
    using that make_cfg_file_ValueError_iff [of self kwargs fs] by blast
  have b: "snd (snd (make_cfg_file self kwargs fs)) = fs"
    if "fst (make_cfg_file self kwargs fs) = Inl e" for e
    using that by (rule make_cfg_file_error_fs)
  from a b show ?thesis by blast
qed

lemma demo_run:
  "make_cfg_file demo_model demo_kwargs demo_fs =
    (Inr [''run'', ''HBV_config.json''],
     demo_model\<lparr>config :=
       [(''precipitation_file'', CStr ''/data/pr.nc''),
        (''potential_evaporation_file'', CStr ''/data/pev.nc''),
        (''mean_temperature_file'', CStr ''/data/tas.nc''),
        (''parameters'', CStr ''2,0.8,460,1.8,0.001,4,0.01,1e-05,-1''),
        (''initial_storage'', CStr ''0,10,2.5,100,0'')]\<rparr>,
     demo_fs\<lparr>files := [[''run'', ''HBV_config.json''] \<mapsto>
       json_dumps
         [(''precipitation_file'', CStr ''/data/pr.nc''),
          (''potential_evaporation_file'', CStr ''/data/pev.nc''),
          (''mean_temperature_file'', CStr ''/data/tas.nc''),
          (''parameters'', CStr ''2,0.8,460,1.8,0.001,4,0.01,1e-05,-1''),
          (''initial_storage'', CStr ''0,10,2.5,100,0'')]]\<rparr>)"
  by (simp add: make_cfg_file_def demo_model_def demo_kwargs_def demo_fs_def demo_forcing_def
      demo_parameters_def demo_storage_def serialize_and_write_def join_entry_def
      str_items_def forcing_path_def forcing_getitem_def default_config_def write_text_def
      joinpath_def str_path_def str_eval Let_def)

theorem no_write_on_validation_failure_witness:
  "\<not> valid_kwargs [(''parameters'', ints [1, 2, 3, 4, 5, 6, 7, 8])]
   \<and> (\<exists>msg. fst (make_cfg_file demo_model [(''parameters'', ints [1, 2, 3, 4, 5, 6, 7, 8])] demo_fs)
         = Inl (ValueError msg))
   \<and> snd (snd (make_cfg_file demo_model [(''parameters'', ints [1, 2, 3, 4, 5, 6, 7, 8])] demo_fs))
       = demo_fs
   \<and> snd (snd (make_cfg_file demo_model demo_kwargs demo_fs)) \<noteq> demo_fs
   \<and> valid_kwargs demo_kwargs"
proof -
  have h: "\<not> valid_kwargs [(''parameters'', ints [1, 2, 3, 4, 5, 6, 7, 8])]"
    by (simp add: valid_kwargs_def ints_def)
  have g: "snd (snd (make_cfg_file demo_model demo_kwargs demo_fs)) \<noteq> demo_fs"
  proof
    assume "snd (snd (make_cfg_file demo_model demo_kwargs demo_fs)) = demo_fs"
    then have "files (snd (snd (make_cfg_file demo_model demo_kwargs demo_fs)))
        [''run'', ''HBV_config.json''] = files demo_fs [''run'', ''HBV_config.json'']"
      by simp
    then show False unfolding demo_run by (simp add: demo_fs_def)
  qed
  show ?thesis
    using no_write_on_validation_failure
            [of "[(''parameters'', ints [1, 2, 3, 4, 5, 6, 7, 8])]" demo_model demo_fs]
          no_write_on_validation_failure [of demo_kwargs demo_model demo_fs] h g
    by blast
qed

text \<open>
  C10. When the call raises because \<open>initial_storage\<close> has a length other than 5, the
  dictionary's \<open>parameters\<close> entry already holds the new list of parameters (line 81 ran
  before the check of line 84): the dictionary is not as it was, nothing else of the
  wrapper and nothing of the file system has changed, and the \<open>parameters\<close> accessor
  now fails on the list.
\<close>

theorem parameters_overwritten_before_storage_error:
  assumes "map_of kwargs ''parameters'' = Some ps" and "length ps = 9"
    and "map_of kwargs ''initial_storage'' = Some st" and "length st \<noteq> 5"
  shows "make_cfg_file self kwargs fs =
           (Inl (ValueError ''The model needs 5 initial storage terms.''),
            self\<lparr>config := AList.update ''parameters'' (CList ps) (config self)\<rparr>, fs)
       \<and> map_of (config (fst (snd (make_cfg_file self kwargs fs)))) ''parameters''
           = Some (CList ps)
       \<and> (map_of (config self) ''parameters'' \<noteq> Some (CList ps) \<longrightarrow>
            config (fst (snd (make_cfg_file self kwargs fs))) \<noteq> config self)
       \<and> parameters (fst (snd (make_cfg_file self kwargs fs))) = Inl AttributeError"
proof -
  have run: "make_cfg_file self kwargs fs =
           (Inl (ValueError ''The model needs 5 initial storage terms.''),
            self\<lparr>config := AList.update ''parameters'' (CList ps) (config self)\<rparr>, fs)"
    using assms by (simp add: make_cfg_file_def setitem_def)
  have entry: "map_of (config (fst (snd (make_cfg_file self kwargs fs)))) ''parameters''
      = Some (CList ps)"
    by (simp add: run update_conv')
  have changed: "config (fst (snd (make_cfg_file self kwargs fs))) \<noteq> config self"
    if "map_of (config self) ''parameters'' \<noteq> Some (CList ps)"
    using that entry by metis
  have acc: "parameters (fst (snd (make_cfg_file self kwargs fs))) = Inl AttributeError"
    using entry by (simp add: parameters_def named_items_def)
  from run entry changed acc show ?thesis by blast
qed

theorem parameters_overwritten_before_storage_error_witness:
  "map_of short_storage_kwargs ''parameters'' = Some demo_parameters
   \<and> length demo_parameters = 9
   \<and> map_of short_storage_kwargs ''initial_storage'' = Some (ints [1, 2, 3, 4])
   \<and> length (ints [1, 2, 3, 4]) \<noteq> 5
   \<and> map_of (config demo_model) ''parameters'' = Some (CStr '''')
   \<and> fst (make_cfg_file demo_model short_storage_kwargs demo_fs)
       = Inl (ValueError ''The model needs 5 initial storage terms.'')
   \<and> map_of (config (fst (snd (make_cfg_file demo_model short_storage_kwargs demo_fs))))
        ''parameters'' = Some (CList demo_parameters)
   \<and> config (fst (snd (make_cfg_file demo_model short_storage_kwargs demo_fs)))
       \<noteq> config demo_model
   \<and> parameters (fst (snd (make_cfg_file demo_model short_storage_kwargs demo_fs)))
       = Inl AttributeError"
proof -
  have h1: "map_of short_storage_kwargs ''parameters'' = Some demo_parameters"
    by (simp add: short_storage_kwargs_def)
  have h2: "length demo_parameters = 9" by (simp add: demo_parameters_def)
  have h3: "map_of short_storage_kwargs ''initial_storage'' = Some (ints [1, 2, 3, 4])"
    by (simp add: short_storage_kwargs_def)
  have h4: "length (ints [1, 2, 3, 4]) \<noteq> 5" by (simp add: ints_def)
  have h5: "map_of (config demo_model) ''parameters'' = Some (CStr '''')"
    by (simp add: demo_model_def default_config_def)
  then have h6: "map_of (config demo_model) ''parameters'' \<noteq> Some (CList demo_parameters)"
    by simp
  note t = parameters_overwritten_before_storage_error [OF h1 h2 h3 h4, of demo_model demo_fs]
  from t have "fst (make_cfg_file demo_model short_storage_kwargs demo_fs)
      = Inl (ValueError ''The model needs 5 initial storage terms.'')"
    by (simp only: fst_conv)
  with t h1 h2 h3 h4 h5 h6 show ?thesis by blast
qed

section \<open>The accessors before any configuration is built\<close>

text \<open>
  C5, as the code has it. While the stored string is still empty, its split is the single
  empty token, and \<open>zip\<close> stops at the shorter list: the accessor gives one pair only, the
  first canonical name (\<open>Imax\<close>, respectively \<open>Si\<close>) with the empty string.
\<close>

theorem accessors_before_config:
  "(map_of (config self) ''parameters'' = Some (CStr '''') \<longrightarrow>
      parameters self = Inr [(''Imax'', '''')])
   \<and> (map_of (config self) ''initial_storage'' = Some (CStr '''') \<longrightarrow>
      states self = Inr [(''Si'', '''')])"
  by (simp add: parameters_def states_def named_items_def HBV_PARAMS_def HBV_STATES_def
      dict_of_def)

theorem accessors_before_config_witness:
  "map_of (config demo_model) ''parameters'' = Some (CStr '''')
   \<and> parameters demo_model = Inr [(''Imax'', '''')]
   \<and> map_of (config demo_model) ''initial_storage'' = Some (CStr '''')
   \<and> states demo_model = Inr [(''Si'', '''')]"
  using accessors_before_config [of demo_model]
  by (simp add: demo_model_def default_config_def)

text \<open>
  The claim as written, a mapping from each of the nine (respectively five) names to the
  empty string, fails on the class default of the dictionary.
\<close>

theorem accessors_before_config_counterexample:
  "config demo_model = default_config
   \<and> parameters demo_model
       \<noteq> Inr [(''Imax'', ''''), (''Ce'', ''''), (''Sumax'', ''''), (''Beta'', ''''), (''Pmax'', ''''),
              (''Tlag'', ''''), (''Kf'', ''''), (''Ks'', ''''), (''FM'', '''')]
   \<and> states demo_model
       \<noteq> Inr [(''Si'', ''''), (''Su'', ''''), (''Sf'', ''''), (''Ss'', ''''), (''Sp'', '''')]"
  by (simp add: parameters_def states_def named_items_def HBV_PARAMS_def HBV_STATES_def
      dict_of_def demo_model_def default_config_def)

section \<open>Loading the forcing file\<close>

lemma upt_5: "[0 ..< 5] = [0, 1, 2, 3, 4]"
  by (simp add: upt_rec)

lemma DataFrame_two_rows:
  "DataFrame [[a0, a1, a2, a3, a4], [b0, b1, b2, b3, b4]] [''year'', ''month'', ''day'', ''pr'', ''pev'']
     = Inr [(''year'', [a0, b0]), (''month'', [a1, b1]), (''day'', [a2, b2]),
            (''pr'', [a3, b3]), (''pev'', [a4, b4])]"
  by (simp add: DataFrame_def upt_5)

text \<open>
  C6. For a forcing file with the rows \<open>[2000,1,1,1.5,0.3]\<close> and \<open>[2000,1,2,0.0,0.5]\<close>,
  \<open>to_xarray\<close> gives a dataset whose \<open>time\<close> index is the two days 2000-01-01 and
  2000-01-02, with the data variables \<open>pr = [1.5, 0.0]\<close> and \<open>pev = [0.3, 0.5]\<close> and
  without the year, month and day columns.
\<close>

theorem to_xarray_two_rows:
  assumes "directory self = Some d" and "forcing_file self = Some f"
    and "loadtxt (joinpath d f) = Inr [[2000, 1, 1, 1.5, 0.3], [2000, 1, 2, 0.0, 0.5]]"
    and "Timestamp ''2000-1-1'' = Inr (Date 2000 1 1)"
    and "Timestamp ''2000-1-2'' = Inr (Date 2000 1 2)"
  shows "to_xarray loadtxt Timestamp self =
     Inr \<lparr>coords = [(''time'', [Date 2000 1 1, Date 2000 1 2])],
          data_vars = [(''pr'', [1.5, 0.0]), (''pev'', [0.3, 0.5])],
          attrs =
            [(''title'', ''HBV forcing data''),
             (''history'', ''Created by ewatercycle_HBV.forcing.HBVForcing.to_xarray()'')]\<rparr>"
proof -
  have y: "str_int (int_of_float 2000) = ''2000''"
    by (simp add: int_of_float_def str_eval)
  have one: "str_int (int_of_float 1) = ''1''"
    by (simp add: int_of_float_def str_eval)
  have two: "str_int (int_of_float 2) = ''2''"
    by (simp add: int_of_float_def str_eval)
  show ?thesis
    using assms by (simp add: to_xarray_def DataFrame_two_rows y one two)
qed

theorem to_xarray_two_rows_witness:
  "directory demo_hbv_forcing = Some [''data'']
   \<and> forcing_file demo_hbv_forcing = Some ''forcing.txt''
   \<and> demo_loadtxt (joinpath [''data''] ''forcing.txt'')
       = Inr [[2000, 1, 1, 1.5, 0.3], [2000, 1, 2, 0.0, 0.5]]
   \<and> ymd_timestamp ''2000-1-1'' = Inr (Date 2000 1 1)
   \<and> ymd_timestamp ''2000-1-2'' = Inr (Date 2000 1 2)
   \<and> to_xarray demo_loadtxt ymd_timestamp demo_hbv_forcing =
     Inr \<lparr>coords = [(''time'', [Date 2000 1 1, Date 2000 1 2])],
          data_vars = [(''pr'', [1.5, 0.0]), (''pev'', [0.3, 0.5])],
          attrs =
            [(''title'', ''HBV forcing data''),
             (''history'', ''Created by ewatercycle_HBV.forcing.HBVForcing.to_xarray()'')]\<rparr>"
proof -
  have h1: "directory demo_hbv_forcing = Some [''data'']"
    by (simp add: demo_hbv_forcing_def)
  have h2: "forcing_file demo_hbv_forcing = Some ''forcing.txt''"
    by (simp add: demo_hbv_forcing_def)
  have h3: "demo_loadtxt (joinpath [''data''] ''forcing.txt'')
      = Inr [[2000, 1, 1, 1.5, 0.3], [2000, 1, 2, 0.0, 0.5]]"
    by (simp add: demo_loadtxt_def joinpath_def demo_table_def)
  have h4: "ymd_timestamp ''2000-1-1'' = Inr (Date 2000 1 1)"
    by (simp add: ymd_timestamp_def digit_val_def)
  have h5: "ymd_timestamp ''2000-1-2'' = Inr (Date 2000 1 2)"
    by (simp add: ymd_timestamp_def digit_val_def)
  show ?thesis
    using to_xarray_two_rows
            [where self = demo_hbv_forcing and d = "[''data'']" and f = "''forcing.txt''"
               and loadtxt = demo_loadtxt and Timestamp = ymd_timestamp,
             OF h1 h2 h3 h4 h5]
          h1 h2 h3 h4 h5
    by blast
qed

text \<open>
  C7. A forcing container without a directory or without a forcing file name makes
  \<open>to_xarray\<close> raise the configuration error (a \<open>ValueError\<close> with its message in the
  code), whatever the file system holds: no path is built from a missing value.
\<close>

theorem to_xarray_unset:
  "directory self = None \<or> forcing_file self = None \<Longrightarrow>
   to_xarray loadtxt Timestamp self = Inl (ValueError ''Directory or forcing_file is not set'')"
  by (auto simp: to_xarray_def split: option.splits)

theorem to_xarray_unset_witness:
  "directory no_directory_forcing = None
   \<and> to_xarray demo_loadtxt ymd_timestamp no_directory_forcing
       = Inl (ValueError ''Directory or forcing_file is not set'')
   \<and> forcing_file no_file_forcing = None
   \<and> to_xarray demo_loadtxt ymd_timestamp no_file_forcing
       = Inl (ValueError ''Directory or forcing_file is not set'')"
proof -
  have h1: "directory no_directory_forcing = None" by (simp add: no_directory_forcing_def)
  have h2: "forcing_file no_file_forcing = None" by (simp add: no_file_forcing_def)
  show ?thesis
    using to_xarray_unset [of no_directory_forcing demo_loadtxt ymd_timestamp]
      to_xarray_unset [of no_file_forcing demo_loadtxt ymd_timestamp] h1 h2
    by blast
qed

section \<open>The written file\<close>

lemma numeric_kwargs_lookup:
  "numeric_kwargs kw \<Longrightarrow> map_of kw k = Some vs \<Longrightarrow> list_all wf_val vs"
  by (auto simp: numeric_kwargs_def list_all_iff dest!: map_of_SomeD)

lemma split_joined_tokens:
  assumes "xs \<noteq> []" and "list_all wf_val xs"
  shows "split_on CHR '','' (join '','' (map str_val xs)) = map str_val xs"
proof -
  have "\<forall>t \<in> set (map str_val xs). CHR '','' \<notin> set t"
    using assms(2) numeric_token_no_comma [OF numeric_token_str_val]
    by (auto simp: list_all_iff)
  moreover have "map str_val xs \<noteq> []" using assms(1) by simp
  ultimately show ?thesis
    using split_on_join [of "map str_val xs" "CHR '',''"] by simp
qed

lemma serialize_and_write_success:
  assumes "serialize_and_write s fs = (Inr p, s', fs')"
    and "map_of (config s) ''initial_storage'' = Some (CList st)"
    and "map_of (config s) ''parameters'' = Some (CList ps)"
  shows "\<exists>p1 p2 p3.
      config s' =
        AList.update ''mean_temperature_file'' (CStr p3)
          (AList.update ''potential_evaporation_file'' (CStr p2)
            (AList.update ''precipitation_file'' (CStr p1)
              (AList.update ''parameters'' (joined ps)
                (AList.update ''initial_storage'' (joined st) (config s)))))
      \<and> p = joinpath (cfg_dir s) ''HBV_config.json''
      \<and> fs' = fs\<lparr>files := (files fs)(p \<mapsto> json_dumps (config s'))\<rparr>"
  using assms
  by (auto simp: serialize_and_write_def join_entry_Some update_conv' str_items_def joined_def
      write_text_def Let_def split: sum.splits if_splits) blast

lemma five_keys:
  "map fst al = [a, b, c, d, e] \<Longrightarrow>
   \<exists>v1 v2 v3 v4 v5. al = [(a, v1), (b, v2), (c, v3), (d, v4), (e, v5)]"
  by (auto simp: map_eq_Cons_conv)

lemma json_dumps_five:
  "json_dumps [(k1, CStr v1), (k2, CStr v2), (k3, CStr v3), (k4, CStr v4), (k5, CStr v5)] =
     ''{'' @ member_line k1 v1 @ '','' @ member_line k2 v2 @ '','' @ member_line k3 v3 @ '',''
       @ member_line k4 v4 @ '','' @ member_line k5 v5 @ [CHR 0x0A] @ ''}''"
  by (simp add: json_dumps_def member_line_def newline_indent_def numeral_eq_Suc)

lemma shape_after_updates:
  "AList.update ''mean_temperature_file'' (CStr p3)
     (AList.update ''potential_evaporation_file'' (CStr p2)
       (AList.update ''precipitation_file'' (CStr p1)
         (AList.update ''parameters'' x4
           (AList.update ''initial_storage'' x5
             (AList.update ''initial_storage'' y5
               (AList.update ''parameters'' y4
                 [(''precipitation_file'', v1), (''potential_evaporation_file'', v2),
                  (''mean_temperature_file'', v3), (''parameters'', v4),
                  (''initial_storage'', v5)]))))))
   = [(''precipitation_file'', CStr p1), (''potential_evaporation_file'', CStr p2),
      (''mean_temperature_file'', CStr p3), (''parameters'', x4), (''initial_storage'', x5)]"
  by simp

lemma default_config_keys:
  "map fst default_config =
     [''precipitation_file'', ''potential_evaporation_file'', ''mean_temperature_file'',
      ''parameters'', ''initial_storage'']"
  by (simp add: default_config_def)

lemma success_valid_kwargs:
  assumes "make_cfg_file self kwargs fs = (Inr p, self', fs')"
  shows "valid_kwargs kwargs"
proof (rule ccontr)
  assume "\<not> valid_kwargs kwargs"
  then obtain msg where "fst (make_cfg_file self kwargs fs) = Inl (ValueError msg)"
    using make_cfg_file_ValueError_iff [of self kwargs fs] by blast
  with assms show False by simp
qed

lemma valid_kwargs_cases:
  assumes "valid_kwargs kwargs"
  obtains ps st where "map_of kwargs ''parameters'' = Some ps" and "length ps = 9"
      and "map_of kwargs ''initial_storage'' = Some st" and "length st = 5"
    | ps where "map_of kwargs ''parameters'' = Some ps" and "length ps = 9"
      and "map_of kwargs ''initial_storage'' = None"
  using assms by (auto simp: valid_kwargs_def split: option.splits)

text \<open>What a successful call has done, for the storage vector \<open>st\<close> it worked with.\<close>

lemma written_from_vectors:
  assumes run: "serialize_and_write
        (setitem ''initial_storage'' (CList st) (setitem ''parameters'' (CList ps) self)) fs
        = (Inr p, self', fs')"
    and keys: "map fst (config self) = map fst default_config"
    and len: "length ps = 9" "length st = 5"
    and wf: "list_all wf_val ps" "list_all wf_val st"
  shows "p = joinpath (cfg_dir self) ''HBV_config.json''
     \<and> (\<exists>pf ef tf par sto.
          config self' =
            [(''precipitation_file'', CStr pf), (''potential_evaporation_file'', CStr ef),
             (''mean_temperature_file'', CStr tf), (''parameters'', CStr par),
             (''initial_storage'', CStr sto)]
          \<and> files fs' p =
              Some (''{'' @ member_line ''precipitation_file'' pf @ '',''
                    @ member_line ''potential_evaporation_file'' ef @ '',''
                    @ member_line ''mean_temperature_file'' tf @ '',''
                    @ member_line ''parameters'' par @ '',''
                    @ member_line ''initial_storage'' sto @ [CHR 0x0A] @ ''}'')
          \<and> length (split_on CHR '','' par) = 9
          \<and> list_all numeric_token (split_on CHR '','' par)
          \<and> length (split_on CHR '','' sto) = 5
          \<and> list_all numeric_token (split_on CHR '','' sto))"
proof -
  let ?s = "setitem ''initial_storage'' (CList st) (setitem ''parameters'' (CList ps) self)"
  let ?par = "join '','' (map str_val ps)" and ?sto = "join '','' (map str_val st)"
  from serialize_and_write_success [OF run entries_after_setitems]
  obtain p1 p2 p3 where
    cfg: "config self' =
        AList.update ''mean_temperature_file'' (CStr p3)
          (AList.update ''potential_evaporation_file'' (CStr p2)
            (AList.update ''precipitation_file'' (CStr p1)
              (AList.update ''parameters'' (joined ps)
                (AList.update ''initial_storage'' (joined st) (config ?s)))))"
    and p: "p = joinpath (cfg_dir ?s) ''HBV_config.json''"
    and fs': "fs' = fs\<lparr>files := (files fs)(p \<mapsto> json_dumps (config self'))\<rparr>"
    by blast
  from five_keys [OF keys [unfolded default_config_keys]] obtain v1 v2 v3 v4 v5 where
    c0: "config self =
      [(''precipitation_file'', v1), (''potential_evaporation_file'', v2),
       (''mean_temperature_file'', v3), (''parameters'', v4), (''initial_storage'', v5)]"
    by blast
  have shape: "config self' =
      [(''precipitation_file'', CStr p1), (''potential_evaporation_file'', CStr p2),
       (''mean_temperature_file'', CStr p3), (''parameters'', CStr ?par),
       (''initial_storage'', CStr ?sto)]"
    unfolding cfg setitem_simps c0 shape_after_updates joined_def by (rule refl)
  have written: "files fs' p = Some (json_dumps (config self'))"
    by (simp add: fs')
  from len have ne: "ps \<noteq> []" "st \<noteq> []" by auto
  have tp: "split_on CHR '','' ?par = map str_val ps"
    using ne(1) wf(1) by (rule split_joined_tokens)
  have ts: "split_on CHR '','' ?sto = map str_val st"
    using ne(2) wf(2) by (rule split_joined_tokens)
  have np: "list_all numeric_token (map str_val ps)"
    using wf(1) numeric_token_str_val by (auto simp: list_all_iff)
  have ns: "list_all numeric_token (map str_val st)"
    using wf(2) numeric_token_str_val by (auto simp: list_all_iff)
  have pth: "p = joinpath (cfg_dir self) ''HBV_config.json''" using p by simp
  have doc: "files fs' p =
      Some (''{'' @ member_line ''precipitation_file'' p1 @ '',''
            @ member_line ''potential_evaporation_file'' p2 @ '',''
            @ member_line ''mean_temperature_file'' p3 @ '',''
            @ member_line ''parameters'' ?par @ '',''
            @ member_line ''initial_storage'' ?sto @ [CHR 0x0A] @ ''}'')"
    unfolding written shape by (simp only: json_dumps_five)
  have l1: "length (split_on CHR '','' ?par) = 9" by (simp only: tp length_map len)
  have n1: "list_all numeric_token (split_on CHR '','' ?par)" by (simp only: tp np)
  have l2: "length (split_on CHR '','' ?sto) = 5" by (simp only: ts length_map len)
  have n2: "list_all numeric_token (split_on CHR '','' ?sto)" by (simp only: ts ns)
  show ?thesis
    apply (rule conjI [OF pth])
    apply (rule exI [of _ p1], rule exI [of _ p2], rule exI [of _ p3])
    apply (rule exI [of _ ?par], rule exI [of _ ?sto])
    apply (intro conjI)
         apply (rule shape doc l1 n1 l2 n2)+
    done
qed


lemma encode_plain:
  "list_all (\<lambda>c. c \<in> set ''abcdefghijklmnopqrstuvwxyz0123456789_/.,-'') s \<Longrightarrow>
   encode_string s = CHR 0x22 # s @ [CHR 0x22]"
proof -
  assume a: "list_all (\<lambda>c. c \<in> set ''abcdefghijklmnopqrstuvwxyz0123456789_/.,-'') s"
  have "json_escape_char c = [c]"
    if "c \<in> set ''abcdefghijklmnopqrstuvwxyz0123456789_/.,-''" for c
    using that by (auto simp: json_escape_char_def)
  with a have "concat (map json_escape_char s) = s"
    by (induction s) simp_all
  then show ?thesis by (simp add: encode_string_def)
qed


end
